theory Spec2Isabelle
  imports Main "HOL-Library.Word"
begin

section \<open>Admin server: log queries\<close>

text \<open>
  Go's \<open>uint\<close> and \<open>uint64\<close> are 64-bit unsigned machine integers; \<open><\<close> on
  words is the unsigned comparison. A pointer field (\<open>*uint\<close>, \<open>*string\<close>,
  \<open>*time.Time\<close>) is \<open>None\<close> when nil. \<open>time.Time\<close> is only copied, so it stays
  a type parameter.
\<close>

type_synonym uint = "64 word"
type_synonym uint64 = "64 word"

definition MaxPageSize :: uint where
  "MaxPageSize = 100"

definition DefaultPage :: uint where
  "DefaultPage = 0"

record 'time Query =
  JobID :: "uint64 option"
  Text :: "string option"
  LogLevel :: "string option"
  StartDate :: "'time option"
  EndDate :: "'time option"
  PageSize :: "uint option"
  Page :: "uint option"

text \<open>The storage package's query: the same filters, with page and page size by value.\<close>

record 'time storage_Query =
  storage_JobID :: "uint64 option"
  storage_Text :: "string option"
  storage_LogLevel :: "string option"
  storage_StartDate :: "'time option"
  storage_EndDate :: "'time option"
  storage_PageSize :: uint
  storage_Page :: uint

text \<open>
  \<open>ToStorageQuery\<close> starts from the defaults, copies the five filters, then overrides
  the page when one is given and the page size when one is given and is strictly below
  \<open>MaxPageSize\<close>.
\<close>

definition ToStorageQuery :: "'time Query \<Rightarrow> 'time storage_Query" where
  "ToStorageQuery q =
     (let storageQuery = \<lparr>storage_JobID = None, storage_Text = None, storage_LogLevel = None,
                           storage_StartDate = None, storage_EndDate = None,
                           storage_PageSize = MaxPageSize, storage_Page = DefaultPage\<rparr>;
          storageQuery = storageQuery\<lparr>storage_JobID := JobID q\<rparr>;
          storageQuery = storageQuery\<lparr>storage_Text := Text q\<rparr>;
          storageQuery = storageQuery\<lparr>storage_LogLevel := LogLevel q\<rparr>;
          storageQuery = storageQuery\<lparr>storage_StartDate := StartDate q\<rparr>;
          storageQuery = storageQuery\<lparr>storage_EndDate := EndDate q\<rparr>;
          storageQuery = (case Page q of
                            None \<Rightarrow> storageQuery
                          | Some p \<Rightarrow> storageQuery\<lparr>storage_Page := p\<rparr>);
          storageQuery = (case PageSize q of
                            None \<Rightarrow> storageQuery
                          | Some s \<Rightarrow> if s < MaxPageSize
                                      then storageQuery\<lparr>storage_PageSize := s\<rparr>
                                      else storageQuery)
      in storageQuery)"

section \<open>The Go library functions the job descriptor calls\<close>

text \<open>
  A Go string is a sequence of bytes: \<open>string\<close>. The functions below are the standard
  library's, written out for the arguments the descriptor code passes.
\<close>

text \<open>
  \<open>strings.Split(s, sep)\<close> for a separator of one byte: the pieces of \<open>s\<close> between the
  occurrences of the separator, in order. A string without the separator (the empty
  string too) gives the one-element list holding it.
\<close>

function Split :: "string \<Rightarrow> char \<Rightarrow> string list" where
  "Split s sep =
     (case dropWhile (\<lambda>c. c \<noteq> sep) s of
        [] \<Rightarrow> [s]
      | _ # rest \<Rightarrow> takeWhile (\<lambda>c. c \<noteq> sep) s # Split rest sep)"
  by pat_completeness auto
termination
proof (relation "measure (\<lambda>(s, sep). length s)")
  show "wf (measure (\<lambda>(s, sep). length s))"
    by simp
next
  fix s :: string and sep d :: char and rest :: string
  assume found: "dropWhile (\<lambda>c. c \<noteq> sep) s = d # rest"
  have "length (dropWhile (\<lambda>c. c \<noteq> sep) s) \<le> length s"
    by (rule length_dropWhile_le)
  with found show "((rest, sep), (s, sep)) \<in> measure (\<lambda>(s, sep). length s)"
    by simp
qed

text \<open>
  \<open>strconv.Atoi\<close>: an optional sign, then one or more decimal digits and nothing else
  (a syntax error otherwise); the value has to fit the platform's \<open>int\<close> (a range
  error otherwise). \<open>IntSize\<close> is the width of \<open>int\<close> on a 64-bit platform.
\<close>

datatype NumError = ErrSyntax | ErrRange

definition IntSize :: nat where
  "IntSize = 64"

definition digit_of :: "char \<Rightarrow> nat option" where
  "digit_of c = (if 48 \<le> (of_char c :: nat) \<and> (of_char c :: nat) \<le> 57
                 then Some (of_char c - 48) else None)"

fun parse_digits :: "string \<Rightarrow> nat \<Rightarrow> nat option" where
  "parse_digits [] n = Some n"
| "parse_digits (c # cs) n =
     (case digit_of c of None \<Rightarrow> None | Some d \<Rightarrow> parse_digits cs (n * 10 + d))"

definition Atoi :: "string \<Rightarrow> NumError + int" where
  "Atoi s =
     (case s of
        [] \<Rightarrow> Inl ErrSyntax
      | c # cs \<Rightarrow>
          (let neg = (c = CHR ''-'');
               body = (if c = CHR ''+'' \<or> c = CHR ''-'' then cs else s)
           in if body = [] then Inl ErrSyntax
              else (case parse_digits body 0 of
                      None \<Rightarrow> Inl ErrSyntax
                    | Some un \<Rightarrow>
                        if \<not> neg \<and> 2 ^ (IntSize - 1) \<le> un then Inl ErrRange
                        else if neg \<and> 2 ^ (IntSize - 1) < un then Inl ErrRange
                        else Inr (if neg then - int un else int un))))"

text \<open>The verb \<open>%d\<close> of \<open>fmt.Sprintf\<close>: decimal digits, with a minus sign when negative.\<close>

fun FormatUint :: "nat \<Rightarrow> string" where
  "FormatUint n =
     (if n < 10 then [''0123456789'' ! n]
      else FormatUint (n div 10) @ [''0123456789'' ! (n mod 10)])"

definition FormatInt :: "int \<Rightarrow> string" where
  "FormatInt i = (if i < 0 then CHR ''-'' # FormatUint (nat (- i)) else FormatUint (nat i))"

section \<open>Job descriptors (pkg/job)\<close>

definition JobDescriptorMajorVersion :: uint where
  "JobDescriptorMajorVersion = 1"

definition JobDescriptorMinorVersion :: uint where
  "JobDescriptorMinorVersion = 0"

text \<open>
  The reporting section of a descriptor: two lists of reporter configurations, of which
  \<open>Validate\<close> reads the lengths and the names of the run reporters.
\<close>

record ReporterConfig =
  Name :: string
  Parameters :: string

record Reporting =
  RunReporters :: "ReporterConfig list"
  FinalReporters :: "ReporterConfig list"

text \<open>
  \<open>RunInterval\<close> and the two timeouts are durations (signed 64-bit counts of
  nanoseconds, of which only the sign is read); the test descriptors are only counted,
  so their type is a parameter.
\<close>

record 'td Descriptor =
  JobName :: string
  Version :: string
  Tags :: "string list"
  Runs :: uint
  RunInterval :: int
  TestDescriptors :: "'td list"
  Reporting :: Reporting
  TargetManagerAcquireTimeout :: "int option"
  TargetManagerReleaseTimeout :: "int option"

text \<open>
  A Go \<open>error\<close> made by \<open>errors.New\<close> or by \<open>fmt.Errorf\<close> without verbs is its
  message; a nil error is \<open>None\<close>.
\<close>

type_synonym error = string

text \<open>
  On a name of ASCII bytes \<open>strings.TrimSpace\<close> drops the leading and the trailing
  bytes that are tab, line feed, vertical tab, form feed, carriage return or space.
\<close>

definition asciiSpace :: "char \<Rightarrow> bool" where
  "asciiSpace c = ((of_char c :: nat) \<in> {9, 10, 11, 12, 13, 32})"

definition TrimSpace_ASCII :: "string \<Rightarrow> string" where
  "TrimSpace_ASCII s = rev (dropWhile asciiSpace (rev (dropWhile asciiSpace s)))"

text \<open>The loop over the run reporters: the first blank name ends it with an error.\<close>

fun check_RunReporters :: "(string \<Rightarrow> string) \<Rightarrow> ReporterConfig list \<Rightarrow> error option" where
  "check_RunReporters TrimSpace [] = None"
| "check_RunReporters TrimSpace (reporter # rest) =
     (if TrimSpace (Name reporter) = []
      then Some ''run reporters cannot have empty or all-whitespace names''
      else check_RunReporters TrimSpace rest)"

text \<open>
  \<open>Validate\<close>. \<open>strings.TrimSpace\<close> is the standard library's and is taken as a
  parameter, so that nothing is assumed about the bytes it counts as white space.
\<close>

definition Validate :: "(string \<Rightarrow> string) \<Rightarrow> 'td Descriptor \<Rightarrow> error option" where
  "Validate TrimSpace d =
     (if length (TestDescriptors d) = 0
      then Some ''need at least one TestDescriptor in the JobDescriptor''
      else if JobName d = [] then Some ''job name cannot be empty''
      else if RunInterval d < 0 then Some ''run interval must be non-negative''
      else if length (RunReporters (Reporting d)) = 0 \<and>
              length (FinalReporters (Reporting d)) = 0
      then Some ''at least one run reporter or one final reporter must be specified in a job''
      else check_RunReporters TrimSpace (RunReporters (Reporting d)))"

text \<open>
  The errors of \<open>CheckVersion\<close>: an empty version field, a version that does not split
  into two parts at the dots (with the version), a part \<open>Atoi\<close> refuses (with its
  error), and an incompatible version (with the version and the supported numbers).
\<close>

datatype VersionError =
    EmptyVersionField
  | IncorrectVersion string
  | VersionNumError NumError
  | IncompatibleVersion string uint uint

definition CheckVersion :: "'td Descriptor \<Rightarrow> VersionError option" where
  "CheckVersion d =
     (if Version d = [] then Some EmptyVersionField
      else (let versionNums = Split (Version d) (CHR ''.'')
            in if length versionNums \<noteq> 2 then Some (IncorrectVersion (Version d))
               else (case Atoi (versionNums ! 0) of
                       Inl err \<Rightarrow> Some (VersionNumError err)
                     | Inr majorVersion \<Rightarrow>
                         (case Atoi (versionNums ! 1) of
                            Inl err \<Rightarrow> Some (VersionNumError err)
                          | Inr minorVersion \<Rightarrow>
                              if majorVersion \<noteq> sint JobDescriptorMajorVersion \<or>
                                 minorVersion > sint JobDescriptorMinorVersion
                              then Some (IncompatibleVersion (Version d)
                                           JobDescriptorMajorVersion JobDescriptorMinorVersion)
                              else None))))"

text \<open>\<open>fmt.Sprintf("%d.%d", major, minor)\<close> on the two supported numbers.\<close>

definition CurrentDescriptorVersion :: string where
  "CurrentDescriptorVersion =
     FormatUint (unat JobDescriptorMajorVersion) @ ''.'' @
     FormatUint (unat JobDescriptorMinorVersion)"

section \<open>Job states (pkg/job)\<close>

text \<open>
  \<open>type State int\<close>: any integer is a value of the type; the nine constants are
  numbered by \<open>iota\<close> from 0 in the order of the \<open>const\<close> block.
\<close>

type_synonym State = int

definition JobStateUnknown :: State where "JobStateUnknown = 0"
definition JobStateStarted :: State where "JobStateStarted = 1"
definition JobStateCompleted :: State where "JobStateCompleted = 2"
definition JobStateFailed :: State where "JobStateFailed = 3"
definition JobStatePaused :: State where "JobStatePaused = 4"
definition JobStatePauseFailed :: State where "JobStatePauseFailed = 5"
definition JobStateCancelling :: State where "JobStateCancelling = 6"
definition JobStateCancelled :: State where "JobStateCancelled = 7"
definition JobStateCancellationFailed :: State where "JobStateCancellationFailed = 8"

text \<open>The constants of the \<open>const\<close> block, in the order the block declares them.\<close>

definition State_constants :: "State list" where
  "State_constants =
     [JobStateUnknown, JobStateStarted, JobStateCompleted, JobStateFailed, JobStatePaused,
      JobStatePauseFailed, JobStateCancelling, JobStateCancelled, JobStateCancellationFailed]"

text \<open>
  The eight job event names the string table of \<open>State.String\<close> is built from are
  declared in another file of the package, outside the files verified here; they are
  parameters.
\<close>

record JobEventNames =
  EventJobStarted :: string
  EventJobCompleted :: string
  EventJobFailed :: string
  EventJobPaused :: string
  EventJobPauseFailed :: string
  EventJobCancelling :: string
  EventJobCancelled :: string
  EventJobCancellationFailed :: string

text \<open>
  Indexing a slice with an index that is negative or not below its length is a run-time
  panic in Go.
\<close>

datatype panic = IndexOutOfRange int nat

definition index :: "'a list \<Rightarrow> int \<Rightarrow> panic + 'a" where
  "index xs i =
     (if 0 \<le> i \<and> i < int (length xs) then Inr (xs ! nat i)
      else Inl (IndexOutOfRange i (length xs)))"

definition State_String :: "JobEventNames \<Rightarrow> State \<Rightarrow> panic + string" where
  "State_String ev js =
     (if js > 8 then Inr (''JobState'' @ FormatInt js)
      else index [''JobStateUnknown'',
                  EventJobStarted ev,
                  EventJobCompleted ev,
                  EventJobFailed ev,
                  EventJobPaused ev,
                  EventJobPauseFailed ev,
                  EventJobCancelling ev,
                  EventJobCancelled ev,
                  EventJobCancellationFailed ev] js)"

section \<open>The exec test step (plugins/teststeps/exec/exec.go)\<close>

record stepParams_Bin =
  Path :: string
  Args :: "string list"

record stepParams_Transport =
  Proto :: string
  Options :: string

record stepParams_Constraints =
  TimeQuota :: int

record stepParams =
  Bin :: stepParams_Bin
  Transport :: stepParams_Transport
  OCPOutput :: bool
  Constraints :: stepParams_Constraints
  ExitCodeMap :: "int \<rightharpoonup> string"

text \<open>\<open>Name\<close> is the name used to look this plugin up.\<close>

definition exec_Name :: string where
  "exec_Name = ''Exec''"

text \<open>
  \<open>TestStep\<close> embeds the parameter structure; the embedded field is \<open>params\<close> here.
\<close>

record TestStep =
  params :: stepParams

definition TestStep_Name :: "TestStep \<Rightarrow> string" where
  "TestStep_Name ts = exec_Name"

text \<open>\<open>New\<close> returns \<open>&TestStep{}\<close>: every field has the zero value of its type.\<close>

definition New :: "unit \<Rightarrow> TestStep" where
  "New u = \<lparr>params = \<lparr>Bin = \<lparr>Path = [], Args = []\<rparr>,
                       Transport = \<lparr>Proto = [], Options = []\<rparr>,
                       OCPOutput = False,
                       Constraints = \<lparr>TimeQuota = 0\<rparr>,
                       ExitCodeMap = Map.empty\<rparr>\<rparr>"

text \<open>
  \<open>Load\<close> returns the name, the factory and the events of the plugin; the list
  \<open>Events\<close> is declared in another file of the package and is a parameter.
\<close>

definition Load :: "'event list \<Rightarrow> string \<times> (unit \<Rightarrow> TestStep) \<times> 'event list" where
  "Load Events = (exec_Name, New, Events)"

text \<open>
  What \<open>populateParams\<close> calls outside this file: \<open>GetOne(key).JSON()\<close> of the step
  parameters (the raw JSON text of the first value stored under the key) and
  \<open>json.Unmarshal\<close> into the step's parameter structure, which returns its error and
  leaves the structure as far as it filled it. Both are parameters.
\<close>

record ('p, 'jerr) exec_library =
  GetOne_JSON :: "'p \<Rightarrow> string \<Rightarrow> string"
  Unmarshal :: "string \<Rightarrow> stepParams \<Rightarrow> 'jerr option \<times> stepParams"

definition populateParams ::
  "('p, 'jerr) exec_library \<Rightarrow> TestStep \<Rightarrow> 'p \<Rightarrow> TestStep \<times> error option" where
  "populateParams lib ts stepParams =
     (let bag = GetOne_JSON lib stepParams ''bag''
      in (case Unmarshal lib bag (params ts) of
            (Some err, filled) \<Rightarrow> (ts\<lparr>params := filled\<rparr>, Some ''failed to deserialize parameters'')
          | (None, filled) \<Rightarrow> (ts\<lparr>params := filled\<rparr>, None)))"

definition ValidateParameters ::
  "('p, 'jerr) exec_library \<Rightarrow> TestStep \<Rightarrow> 'ctx \<Rightarrow> 'p \<Rightarrow> TestStep \<times> error option" where
  "ValidateParameters lib ts ctx stepParams = populateParams lib ts stepParams"

text \<open>
  \<open>Run\<close> returns the step (whose parameters \<open>populateParams\<close> writes), the channels,
  the checkpoint and the error. Two things it calls lie outside the files verified here
  and are parameters: \<open>teststeps.ForEachTarget\<close>, the helper that receives the targets
  from the channels and whose checkpoint and error \<open>Run\<close> returns as they are, and
  \<open>NewTargetRunner(ts, ev, stepsVars).Run\<close>, the per-target function handed to it.
  Nothing is assumed about either; the channels are whatever the helper works on.
\<close>

definition Run ::
  "('p, 'jerr) exec_library \<Rightarrow>
   (string \<Rightarrow> 'ctx \<Rightarrow> 'ch \<Rightarrow> ('ctx \<Rightarrow> 'tgt \<Rightarrow> error option) \<Rightarrow>
      'ch \<times> string option \<times> error option) \<Rightarrow>
   (TestStep \<Rightarrow> 'ev \<Rightarrow> 'vars \<Rightarrow> 'ctx \<Rightarrow> 'tgt \<Rightarrow> error option) \<Rightarrow>
   TestStep \<Rightarrow> 'ctx \<Rightarrow> 'ch \<Rightarrow> 'ev \<Rightarrow> 'vars \<Rightarrow> 'p \<Rightarrow> string \<Rightarrow>
   TestStep \<times> 'ch \<times> string option \<times> error option" where
  "Run lib ForEachTarget NewTargetRunner_Run ts ctx ch ev stepsVars stepParams resumeState =
     (case populateParams lib ts stepParams of
        (ts', Some err) \<Rightarrow> (ts', ch, None, Some err)
      | (ts', None) \<Rightarrow>
          (let tr = NewTargetRunner_Run ts' ev stepsVars
           in (case ForEachTarget exec_Name ctx ch tr of
                 (ch', checkpoint, err) \<Rightarrow> (ts', ch', checkpoint, err))))"

section \<open>The job state machine\<close>

text \<open>
  Modelled from the spec: the Job State Machine, which decides the legal transitions
  between the job states, lies outside the files verified here (only the states are
  declared in them). The spec lists its transitions: Unknown to Started on launch;
  Started to Completed; Started to Failed; Started to Paused, which commits only when
  every in-flight target has been drained; Started or Paused to Cancelling on an accepted
  cancellation, and Cancelling to Cancelled once the in-flight set is empty; Started to
  PauseFailed when a pause cannot complete in time; and CancellationFailed when a
  cancellation cannot complete in time, the job remaining logically Started or Paused
  (taken here from Started, Paused or Cancelling). The machine is asked for a transition
  with the in-flight set of that moment.
\<close>

definition legal_transition :: "State \<Rightarrow> State \<Rightarrow> 'tgt set \<Rightarrow> bool" where
  "legal_transition s s' in_flight =
     (if s = JobStateUnknown then s' = JobStateStarted
      else if s = JobStateStarted then
        s' = JobStateCompleted \<or> s' = JobStateFailed \<or>
        (s' = JobStatePaused \<and> in_flight = {}) \<or>
        s' = JobStateCancelling \<or> s' = JobStatePauseFailed \<or>
        s' = JobStateCancellationFailed
      else if s = JobStatePaused then
        s' = JobStateCancelling \<or> s' = JobStateCancellationFailed
      else if s = JobStateCancelling then
        (s' = JobStateCancelled \<and> in_flight = {}) \<or> s' = JobStateCancellationFailed
      else False)"

text \<open>
  A request is the state asked for and the in-flight set when it is asked. A legal
  request moves the machine; any other is rejected and leaves the state as it is.
\<close>

datatype TransitionError = IllegalTransition State State

definition request_transition :: "State \<Rightarrow> State \<times> 'tgt set \<Rightarrow> TransitionError + State" where
  "request_transition s r =
     (if legal_transition s (fst r) (snd r) then Inr (fst r)
      else Inl (IllegalTransition s (fst r)))"

text \<open>
  The states a job is observed in, in order, when the machine starts in \<open>s\<close> and is
  given the requests one after the other.
\<close>

fun observed_states :: "State \<Rightarrow> (State \<times> 'tgt set) list \<Rightarrow> State list" where
  "observed_states s [] = [s]"
| "observed_states s (r # rs) =
     (case request_transition s r of
        Inl err \<Rightarrow> observed_states s rs
      | Inr s' \<Rightarrow> s # observed_states s' rs)"

section \<open>Properties\<close>

subsection \<open>Log queries\<close>

text \<open>
  C10: the storage query's page size never exceeds \<open>MaxPageSize\<close> (100): it is the
  requested size when that is strictly below 100, and 100 otherwise, also when no size is
  given; its page is the requested page, or 0 when none is given.
\<close>

theorem ToStorageQuery_page_size_and_page:
  "storage_PageSize (ToStorageQuery q) \<le> MaxPageSize \<and>
   MaxPageSize = 100 \<and>
   storage_PageSize (ToStorageQuery q) =
     (case PageSize q of None \<Rightarrow> 100 | Some s \<Rightarrow> if s < 100 then s else 100) \<and>
   storage_Page (ToStorageQuery q) = (case Page q of None \<Rightarrow> 0 | Some p \<Rightarrow> p)"
proof -
  have size: "storage_PageSize (ToStorageQuery q) =
      (case PageSize q of None \<Rightarrow> 100 | Some s \<Rightarrow> if s < 100 then s else 100)"
    by (simp add: ToStorageQuery_def MaxPageSize_def Let_def split: option.split)
  have page: "storage_Page (ToStorageQuery q) = (case Page q of None \<Rightarrow> 0 | Some p \<Rightarrow> p)"
    by (simp add: ToStorageQuery_def DefaultPage_def Let_def split: option.split)
  have "(case PageSize q of None \<Rightarrow> 100 | Some s \<Rightarrow> if s < 100 then s else 100) \<le> (100 :: uint)"
    by (cases "PageSize q") auto
  with size have bound: "storage_PageSize (ToStorageQuery q) \<le> MaxPageSize"
    by (simp add: MaxPageSize_def)
  from bound size page show ?thesis
    by (simp add: MaxPageSize_def)
qed

subsection \<open>Validation of a job descriptor\<close>

lemma check_RunReporters_None_iff:
  "check_RunReporters TrimSpace rs = None \<longleftrightarrow> (\<forall>r\<in>set rs. TrimSpace (Name r) \<noteq> [])"
  by (induction rs) auto

text \<open>
  C1, as amended: \<open>Validate\<close> returns no error exactly for the descriptors with at
  least one test descriptor, a job name that is not empty, a run interval that is not
  negative, at least one reporter (run or final) and no run reporter whose name is empty
  after trimming white space. A descriptor without test descriptors is rejected, and so
  is one whose two reporter lists are empty: removing the only test descriptor or the only
  reporter of a descriptor makes \<open>Validate\<close> return an error.
\<close>

theorem Validate_accepts_iff:
  "(Validate TrimSpace d = None \<longleftrightarrow>
      TestDescriptors d \<noteq> [] \<and> JobName d \<noteq> [] \<and> 0 \<le> RunInterval d \<and>
      (RunReporters (Reporting d) \<noteq> [] \<or> FinalReporters (Reporting d) \<noteq> []) \<and>
      (\<forall>r\<in>set (RunReporters (Reporting d)). TrimSpace (Name r) \<noteq> [])) \<and>
   Validate TrimSpace (d\<lparr>TestDescriptors := []\<rparr>) \<noteq> None \<and>
   Validate TrimSpace (d\<lparr>Reporting := \<lparr>RunReporters = [], FinalReporters = []\<rparr>\<rparr>) \<noteq> None"
proof -
  have accepts: "Validate TrimSpace d = None \<longleftrightarrow>
      TestDescriptors d \<noteq> [] \<and> JobName d \<noteq> [] \<and> 0 \<le> RunInterval d \<and>
      (RunReporters (Reporting d) \<noteq> [] \<or> FinalReporters (Reporting d) \<noteq> []) \<and>
      (\<forall>r\<in>set (RunReporters (Reporting d)). TrimSpace (Name r) \<noteq> [])"
    by (auto simp: Validate_def check_RunReporters_None_iff)
  have no_test: "Validate TrimSpace (d\<lparr>TestDescriptors := []\<rparr>) \<noteq> None"
    by (simp add: Validate_def)
  have no_reporter:
    "Validate TrimSpace (d\<lparr>Reporting := \<lparr>RunReporters = [], FinalReporters = []\<rparr>\<rparr>) \<noteq> None"
    by (simp add: Validate_def)
  from accepts no_test no_reporter show ?thesis
    by blast
qed

text \<open>
  A descriptor with one test descriptor and one run reporter named \<open>noop\<close> is accepted,
  by the theorem.
\<close>

theorem Validate_accepts_iff_witness:
  "Validate TrimSpace_ASCII
     \<lparr>JobName = ''smoke'', Version = ''1.0'', Tags = [], Runs = 1, RunInterval = 0,
      TestDescriptors = [()],
      Reporting = \<lparr>RunReporters = [\<lparr>Name = ''noop'', Parameters = ''{}''\<rparr>],
                   FinalReporters = []\<rparr>,
      TargetManagerAcquireTimeout = None, TargetManagerReleaseTimeout = None\<rparr> = None"
proof -
  have trim: "TrimSpace_ASCII ''noop'' = ''noop''"
    by (simp add: TrimSpace_ASCII_def asciiSpace_def)
  show ?thesis
    by (rule Validate_accepts_iff [THEN conjunct1, THEN iffD2]) (simp add: trim)
qed

text \<open>
  C1 as the spec states it fails: a descriptor with one test descriptor and one final
  reporter, but an empty job name, is rejected.
\<close>

theorem Validate_rejects_empty_job_name:
  "Validate TrimSpace_ASCII
     \<lparr>JobName = [], Version = ''1.0'', Tags = [], Runs = 1, RunInterval = 0,
      TestDescriptors = [()],
      Reporting = \<lparr>RunReporters = [],
                   FinalReporters = [\<lparr>Name = ''noop'', Parameters = ''{}''\<rparr>]\<rparr>,
      TargetManagerAcquireTimeout = None, TargetManagerReleaseTimeout = None\<rparr>
   = Some ''job name cannot be empty''"
  by (simp add: Validate_def)

subsection \<open>The version of a job descriptor\<close>

declare Split.simps [simp del]

lemma Split_no_sep: "sep \<notin> set s \<Longrightarrow> Split s sep = [s]"
proof -
  assume "sep \<notin> set s"
  then have "dropWhile (\<lambda>c. c \<noteq> sep) s = []"
    by auto
  then show ?thesis
    by (simp only: Split.simps [of s sep] list.case)
qed

lemma Split_at_sep:
  assumes "sep \<notin> set a"
  shows "Split (a @ sep # b) sep = a # Split b sep"
proof -
  from assms have d: "dropWhile (\<lambda>c. c \<noteq> sep) (a @ sep # b) = sep # b"
    by (subst dropWhile_append2) auto
  from assms have t: "takeWhile (\<lambda>c. c \<noteq> sep) (a @ sep # b) = a"
    by (auto simp add: takeWhile_tail)
  show ?thesis
    by (simp add: Split.simps [of "a @ sep # b" sep] d t)
qed

lemma Split_not_Nil: "Split s sep \<noteq> []"
  by (simp add: Split.simps [of s sep] split: list.split)

lemma dropWhile_found:
  assumes found: "dropWhile (\<lambda>c. c \<noteq> sep) s = d # rest"
  shows "s = takeWhile (\<lambda>c. c \<noteq> sep) s @ sep # rest"
    and "sep \<notin> set (takeWhile (\<lambda>c. c \<noteq> sep) s)"
proof -
  have "\<not> (hd (dropWhile (\<lambda>c. c \<noteq> sep) s) \<noteq> sep)"
    using found hd_dropWhile [of "\<lambda>c. c \<noteq> sep" s] by simp
  with found have d: "d = sep"
    by simp
  have "s = takeWhile (\<lambda>c. c \<noteq> sep) s @ dropWhile (\<lambda>c. c \<noteq> sep) s"
    by simp
  with found d show "s = takeWhile (\<lambda>c. c \<noteq> sep) s @ sep # rest"
    by simp
  show "sep \<notin> set (takeWhile (\<lambda>c. c \<noteq> sep) s)"
    by (auto dest: set_takeWhileD)
qed

text \<open>Two pieces come out exactly when the string holds the separator once.\<close>

lemma Split_two_iff:
  "Split s sep = [a, b] \<longleftrightarrow> s = a @ sep # b \<and> sep \<notin> set a \<and> sep \<notin> set b"
proof
  assume "s = a @ sep # b \<and> sep \<notin> set a \<and> sep \<notin> set b"
  then show "Split s sep = [a, b]"
    by (simp add: Split_at_sep Split_no_sep)
next
  assume two: "Split s sep = [a, b]"
  show "s = a @ sep # b \<and> sep \<notin> set a \<and> sep \<notin> set b"
  proof (cases "dropWhile (\<lambda>c. c \<noteq> sep) s")
    case Nil
    with two show ?thesis
      by (simp add: Split.simps [of s sep])
  next
    case (Cons d rest)
    note s = dropWhile_found(1) [OF Cons] and t = dropWhile_found(2) [OF Cons]
    from two Cons have a: "a = takeWhile (\<lambda>c. c \<noteq> sep) s" and rb: "Split rest sep = [b]"
      by (simp_all add: Split.simps [of s sep])
    have "sep \<notin> set rest \<and> rest = b"
    proof (cases "dropWhile (\<lambda>c. c \<noteq> sep) rest")
      case Nil
      with rb have "rest = b"
        by (simp add: Split.simps [of rest sep])
      moreover from Nil have "sep \<notin> set rest"
        by auto
      ultimately show ?thesis
        by simp
    next
      case (Cons d' rest')
      with rb have "Split rest' sep = []"
        by (simp add: Split.simps [of rest sep])
      with Split_not_Nil show ?thesis
        by blast
    qed
    then have r1: "sep \<notin> set b" and r2: "b = rest"
      by auto
    have "s = a @ sep # b"
      unfolding a r2 by (rule s)
    moreover from t have "sep \<notin> set a"
      unfolding a .
    ultimately show ?thesis
      using r1 by blast
  qed
qed

lemma length_two_iff: "length xs = 2 \<longleftrightarrow> (\<exists>a b. xs = [a, b])"
  by (cases xs; cases "tl xs"; cases "tl (tl xs)") auto

lemma Atoi_1: "Atoi ''1'' = Inr 1"
  by (simp add: Atoi_def digit_of_def IntSize_def)

lemma Atoi_0: "Atoi ''0'' = Inr 0"
  by (simp add: Atoi_def digit_of_def IntSize_def)

lemma CurrentDescriptorVersion_value: "CurrentDescriptorVersion = ''1.0''"
  by (simp add: CurrentDescriptorVersion_def JobDescriptorMajorVersion_def
      JobDescriptorMinorVersion_def)

text \<open>
  C2: \<open>CheckVersion\<close> returns no error exactly when the version has the form
  \<open>major.minor\<close> (one dot, with \<open>major\<close> before it and \<open>minor\<close> after it), both parts
  are integers for \<open>Atoi\<close>, the major is the supported major version 1 and the minor
  does not exceed the supported minor version 0. In every other case the result is an
  error.
\<close>

theorem CheckVersion_accepts_iff:
  "JobDescriptorMajorVersion = 1 \<and> JobDescriptorMinorVersion = 0 \<and>
   (CheckVersion d = None \<longleftrightarrow>
     (\<exists>major minor m. Version d = major @ ''.'' @ minor \<and>
        CHR ''.'' \<notin> set major \<and> CHR ''.'' \<notin> set minor \<and>
        Atoi major = Inr 1 \<and> Atoi minor = Inr m \<and> m \<le> 0))"
proof -
  have "CheckVersion d = None \<longleftrightarrow>
     (\<exists>major minor m. Version d = major @ ''.'' @ minor \<and>
        CHR ''.'' \<notin> set major \<and> CHR ''.'' \<notin> set minor \<and>
        Atoi major = Inr 1 \<and> Atoi minor = Inr m \<and> m \<le> 0)"
  proof
    assume accepted: "CheckVersion d = None"
    then have len: "length (Split (Version d) (CHR ''.'')) = 2"
      by (auto simp: CheckVersion_def Let_def split: if_splits)
    then obtain a b where ab: "Split (Version d) (CHR ''.'') = [a, b]"
      by (auto simp: length_two_iff)
    with accepted have "Atoi a = Inr 1 \<and> (\<exists>m. Atoi b = Inr m \<and> m \<le> 0)"
      by (auto simp: CheckVersion_def Let_def JobDescriptorMajorVersion_def
          JobDescriptorMinorVersion_def split: if_splits sum.splits)
    with ab show "\<exists>major minor m. Version d = major @ ''.'' @ minor \<and>
        CHR ''.'' \<notin> set major \<and> CHR ''.'' \<notin> set minor \<and>
        Atoi major = Inr 1 \<and> Atoi minor = Inr m \<and> m \<le> 0"
      by (auto simp: Split_two_iff)
  next
    assume "\<exists>major minor m. Version d = major @ ''.'' @ minor \<and>
        CHR ''.'' \<notin> set major \<and> CHR ''.'' \<notin> set minor \<and>
        Atoi major = Inr 1 \<and> Atoi minor = Inr m \<and> m \<le> 0"
    then obtain major minor m where v: "Version d = major @ CHR ''.'' # minor"
      and dots: "CHR ''.'' \<notin> set major" "CHR ''.'' \<notin> set minor"
      and nums: "Atoi major = Inr 1" "Atoi minor = Inr m" "m \<le> 0"
      by auto
    from v dots have "Split (Version d) (CHR ''.'') = [major, minor]"
      by (simp add: Split_two_iff)
    with v nums show "CheckVersion d = None"
      by (simp add: CheckVersion_def Let_def JobDescriptorMajorVersion_def
          JobDescriptorMinorVersion_def)
  qed
  then show ?thesis
    by (simp add: JobDescriptorMajorVersion_def JobDescriptorMinorVersion_def)
qed

text \<open>The version \<open>1.0\<close> is accepted, by the theorem: its parts are \<open>1\<close> and \<open>0\<close>.\<close>

theorem CheckVersion_accepts_iff_witness:
  "CheckVersion
     \<lparr>JobName = ''smoke'', Version = ''1.0'', Tags = [], Runs = 1, RunInterval = 0,
      TestDescriptors = [()],
      Reporting = \<lparr>RunReporters = [], FinalReporters = []\<rparr>,
      TargetManagerAcquireTimeout = None, TargetManagerReleaseTimeout = None\<rparr> = None"
proof -
  have "Atoi ''1'' = Inr 1 \<and> Atoi ''0'' = Inr (0 :: int) \<and> (0 :: int) \<le> 0"
    by (simp add: Atoi_1 Atoi_0)
  then show ?thesis
    by (intro CheckVersion_accepts_iff [THEN conjunct2, THEN conjunct2, THEN iffD2]
        exI [of _ "''1''"] exI [of _ "''0''"] exI [of _ "0 :: int"]) simp
qed

text \<open>
  \<open>Atoi\<close> takes a sign and leading zeros, so versions such as \<open>+1.-5\<close> and
  \<open>01.00\<close> are accepted as well, and \<open>1.1\<close>, \<open>2.0\<close>, \<open>1\<close> and \<open>1.0.0\<close> are
  rejected.
\<close>

lemma CheckVersion_examples:
  "CheckVersion (d\<lparr>Version := ''+1.-5''\<rparr>) = None"
  "CheckVersion (d\<lparr>Version := ''01.00''\<rparr>) = None"
  "CheckVersion (d\<lparr>Version := ''1.1''\<rparr>) =
     Some (IncompatibleVersion ''1.1'' JobDescriptorMajorVersion JobDescriptorMinorVersion)"
  "CheckVersion (d\<lparr>Version := ''2.0''\<rparr>) =
     Some (IncompatibleVersion ''2.0'' JobDescriptorMajorVersion JobDescriptorMinorVersion)"
  "CheckVersion (d\<lparr>Version := ''1''\<rparr>) = Some (IncorrectVersion ''1'')"
  "CheckVersion (d\<lparr>Version := ''1.0.0''\<rparr>) = Some (IncorrectVersion ''1.0.0'')"
  "CheckVersion (d\<lparr>Version := ''1.x''\<rparr>) = Some (VersionNumError ErrSyntax)"
  "CheckVersion (d\<lparr>Version := []\<rparr>) = Some EmptyVersionField"
  by (simp_all add: CheckVersion_def Let_def Split.simps Atoi_def digit_of_def IntSize_def
      JobDescriptorMajorVersion_def JobDescriptorMinorVersion_def)

text \<open>
  C8: a descriptor whose version is the one \<open>CurrentDescriptorVersion\<close> produces gets no
  error from \<open>CheckVersion\<close>.
\<close>

theorem CheckVersion_accepts_current:
  "Version d = CurrentDescriptorVersion \<Longrightarrow> CheckVersion d = None"
proof -
  assume "Version d = CurrentDescriptorVersion"
  then have v: "Version d = ''1.0''"
    by (simp add: CurrentDescriptorVersion_value)
  have "Split ''1.0'' (CHR ''.'') = [''1'', ''0'']"
    by (simp add: Split_two_iff)
  with v show ?thesis
    by (simp add: CheckVersion_def Let_def Atoi_1 Atoi_0 JobDescriptorMajorVersion_def
        JobDescriptorMinorVersion_def)
qed

theorem CheckVersion_accepts_current_witness:
  "CheckVersion
     \<lparr>JobName = ''smoke'', Version = CurrentDescriptorVersion, Tags = [], Runs = 1,
      RunInterval = 0, TestDescriptors = [()],
      Reporting = \<lparr>RunReporters = [], FinalReporters = []\<rparr>,
      TargetManagerAcquireTimeout = None, TargetManagerReleaseTimeout = None\<rparr> = None"
  by (rule CheckVersion_accepts_current) simp

subsection \<open>Job states\<close>

lemmas JobState_defs =
  JobStateUnknown_def JobStateStarted_def JobStateCompleted_def JobStateFailed_def
  JobStatePaused_def JobStatePauseFailed_def JobStateCancelling_def JobStateCancelled_def
  JobStateCancellationFailed_def

text \<open>
  C6: the State type declares exactly nine constants, in the order Unknown, Started,
  Completed, Failed, Paused, PauseFailed, Cancelling, Cancelled, CancellationFailed; they
  are the ordinals 0 to 8 in that order, so Unknown is the zero value of the type and
  the nine are pairwise different.
\<close>

theorem State_nine_constants_in_order:
  "State_constants = map int [0..<9] \<and> length State_constants = 9 \<and>
   distinct State_constants \<and> JobStateUnknown = 0 \<and>
   State_constants ! 0 = JobStateUnknown \<and> State_constants ! 1 = JobStateStarted \<and>
   State_constants ! 2 = JobStateCompleted \<and> State_constants ! 3 = JobStateFailed \<and>
   State_constants ! 4 = JobStatePaused \<and> State_constants ! 5 = JobStatePauseFailed \<and>
   State_constants ! 6 = JobStateCancelling \<and> State_constants ! 7 = JobStateCancelled \<and>
   State_constants ! 8 = JobStateCancellationFailed"
  by (simp add: State_constants_def JobState_defs upt_rec)

text \<open>
  From 0 on, \<open>State.String\<close> returns a string: the entry of the table for the ordinals 0
  to 8, and the text \<open>JobState<n>\<close> above 8.
\<close>

lemma State_String_from_zero:
  "0 \<le> js \<Longrightarrow>
   State_String ev js =
     Inr (if js > 8 then ''JobState'' @ FormatInt js
          else [''JobStateUnknown'', EventJobStarted ev, EventJobCompleted ev,
                EventJobFailed ev, EventJobPaused ev, EventJobPauseFailed ev,
                EventJobCancelling ev, EventJobCancelled ev,
                EventJobCancellationFailed ev] ! nat js)"
  by (simp add: State_String_def index_def)

text \<open>Below zero it panics: the index is out of the range of the table.\<close>

lemma State_String_below_zero:
  "js < 0 \<Longrightarrow> State_String ev js = Inl (IndexOutOfRange js 9)"
  by (simp add: State_String_def index_def)

text \<open>
  C5 fails on the code below zero: the guard of \<open>State.String\<close> sends only the values
  above 8 to the formatted text, so the value -1 of the type reaches the table and
  indexing it panics.
\<close>

theorem State_String_panics_below_zero:
  "State_String ev (- 1) = Inl (IndexOutOfRange (- 1) 9)"
  by (simp add: State_String_def index_def)

subsection \<open>The job state machine\<close>

lemma legal_into_Cancelled:
  "legal_transition s JobStateCancelled in_flight \<longleftrightarrow>
     s = JobStateCancelling \<and> in_flight = {}"
  by (auto simp: legal_transition_def JobState_defs)

lemma observed_states_hd: "hd (observed_states s rs) = s"
  by (induction rs arbitrary: s) (auto split: sum.splits)

lemma observed_states_not_Nil: "observed_states s rs \<noteq> []"
  by (induction rs arbitrary: s) (auto split: sum.splits)

text \<open>
  In the states a job is observed in, Cancelled comes only right after Cancelling. The
  induction follows the requests; the state the machine is in changes with each of them.
\<close>

lemma observed_Cancelled_after_Cancelling:
  "Suc i < length (observed_states s rs) \<Longrightarrow>
   observed_states s rs ! Suc i = JobStateCancelled \<Longrightarrow>
   observed_states s rs ! i = JobStateCancelling"
proof (induction rs arbitrary: s i)
  case Nil
  then show ?case
    by simp
next
  case (Cons r rs)
  show ?case
  proof (cases "request_transition s r")
    case (Inl err)
    with Cons show ?thesis
      by simp
  next
    case (Inr s')
    then have obs: "observed_states s (r # rs) = s # observed_states s' rs"
      by simp
    show ?thesis
    proof (cases i)
      case 0
      with Cons.prems obs have "hd (observed_states s' rs) = JobStateCancelled"
        using observed_states_not_Nil [of s' rs] by (simp add: hd_conv_nth)
      then have "s' = JobStateCancelled"
        by (simp add: observed_states_hd)
      with Inr have "legal_transition s JobStateCancelled (snd r)"
        by (auto simp: request_transition_def split: if_splits)
      then have "s = JobStateCancelling"
        by (simp add: legal_into_Cancelled)
      with 0 obs show ?thesis
        by simp
    next
      case (Suc j)
      with Cons.prems obs have "Suc j < length (observed_states s' rs)"
        and "observed_states s' rs ! Suc j = JobStateCancelled"
        by simp_all
      then have "observed_states s' rs ! j = JobStateCancelling"
        by (rule Cons.IH)
      with Suc obs show ?thesis
        by simp
    qed
  qed
qed

text \<open>
  C4: the machine never goes from Started or from Paused straight to Cancelled, whatever
  the in-flight set; a request for Cancelled is granted only in Cancelling and only with
  an empty in-flight set; and in every sequence of observed states, each Cancelled that
  follows another state follows Cancelling, so every cancellation passes through it.
\<close>

theorem Cancelled_only_through_Cancelling:
  "\<not> legal_transition JobStateStarted JobStateCancelled in_flight \<and>
   \<not> legal_transition JobStatePaused JobStateCancelled in_flight \<and>
   (request_transition s (JobStateCancelled, in_flight) = Inr s' \<longrightarrow>
      s = JobStateCancelling \<and> in_flight = {} \<and> s' = JobStateCancelled) \<and>
   (Suc i < length (observed_states s rs) \<and>
    observed_states s rs ! Suc i = JobStateCancelled \<longrightarrow>
      observed_states s rs ! i = JobStateCancelling)"
proof -
  have started: "\<not> legal_transition JobStateStarted JobStateCancelled in_flight"
    by (simp add: legal_transition_def JobState_defs)
  have paused: "\<not> legal_transition JobStatePaused JobStateCancelled in_flight"
    by (simp add: legal_transition_def JobState_defs)
  have commit: "request_transition s (JobStateCancelled, in_flight) = Inr s' \<longrightarrow>
      s = JobStateCancelling \<and> in_flight = {} \<and> s' = JobStateCancelled"
    by (auto simp: request_transition_def legal_into_Cancelled split: if_splits)
  have observed: "Suc i < length (observed_states s rs) \<and>
      observed_states s rs ! Suc i = JobStateCancelled \<longrightarrow>
      observed_states s rs ! i = JobStateCancelling"
    by (blast intro: observed_Cancelled_after_Cancelling)
  from started paused commit observed show ?thesis
    by blast
qed

text \<open>
  A started job with target 1 in flight: the request for Cancelled is rejected, the one
  for Cancelling granted, Cancelled is rejected while the target is in flight and granted
  once the set is empty. The job is observed in Started, Cancelling, Cancelled, and by the
  theorem the state before Cancelled is Cancelling.
\<close>

theorem Cancelled_only_through_Cancelling_witness:
  "observed_states JobStateStarted
     [(JobStateCancelled, {}), (JobStateCancelling, {1 :: nat}),
      (JobStateCancelled, {1}), (JobStateCancelled, {})]
     = [JobStateStarted, JobStateCancelling, JobStateCancelled] \<and>
   observed_states JobStateStarted
     [(JobStateCancelled, {}), (JobStateCancelling, {1 :: nat}),
      (JobStateCancelled, {1}), (JobStateCancelled, {})] ! 1 = JobStateCancelling"
proof -
  let ?rs = "[(JobStateCancelled, {}), (JobStateCancelling, {1 :: nat}),
      (JobStateCancelled, {1}), (JobStateCancelled, {})]"
  have run: "observed_states JobStateStarted ?rs
      = [JobStateStarted, JobStateCancelling, JobStateCancelled]"
    by (simp add: request_transition_def legal_transition_def JobState_defs)
  then have "Suc 1 < length (observed_states JobStateStarted ?rs) \<and>
      observed_states JobStateStarted ?rs ! Suc 1 = JobStateCancelled"
    by simp
  with Cancelled_only_through_Cancelling [of "{} :: nat set" JobStateStarted JobStateStarted
      1 "?rs"]
  have "observed_states JobStateStarted ?rs ! 1 = JobStateCancelling"
    by blast
  with run show ?thesis
    by blast
qed

subsection \<open>The exec test step\<close>

text \<open>
  C7: \<open>Load\<close> returns the name \<open>Exec\<close> together with a factory, and the step the
  factory makes, as every step of the plugin, returns that same name from \<open>Name\<close>.
\<close>

theorem Load_name_is_step_name:
  "fst (Load Events) = ''Exec'' \<and>
   fst (snd (Load Events)) = New \<and>
   TestStep_Name (fst (snd (Load Events)) u) = fst (Load Events) \<and>
   TestStep_Name ts = fst (Load Events)"
  by (simp add: Load_def TestStep_Name_def exec_Name_def)

text \<open>
  What the code of the step fixes about its two entry points, whatever the helper does.
  \<open>ValidateParameters\<close> returns an error exactly when the parameter \<open>bag\<close> fails to
  deserialize into the step's parameter structure.
\<close>

lemma ValidateParameters_error_iff:
  "(snd (ValidateParameters lib ts ctx p) \<noteq> None) =
     (fst (Unmarshal lib (GetOne_JSON lib p ''bag'') (params ts)) \<noteq> None)"
  by (cases "Unmarshal lib (GetOne_JSON lib p ''bag'') (params ts)")
    (auto simp: ValidateParameters_def populateParams_def split: option.splits)

text \<open>
  When the bag fails to deserialize, \<open>Run\<close> returns no checkpoint and the error of
  \<open>ValidateParameters\<close>, and the helper is not called: the channels are as they were.
\<close>

lemma Run_bag_fails:
  assumes "fst (Unmarshal lib (GetOne_JSON lib p ''bag'') (params ts)) \<noteq> None"
  shows "Run lib helper tr ts ctx ch ev vars p resumeState =
           (fst (ValidateParameters lib ts ctx p), ch, None,
            Some ''failed to deserialize parameters'')"
    and "snd (ValidateParameters lib ts ctx p) = Some ''failed to deserialize parameters''"
  using assms
  by (cases "Unmarshal lib (GetOne_JSON lib p ''bag'') (params ts)";
      auto simp: ValidateParameters_def populateParams_def Run_def)+

text \<open>
  When the bag deserializes, \<open>Run\<close> returns the channels, the checkpoint and the error
  of the helper as they are. So whether \<open>Run\<close> returns an error in that case, where
  \<open>ValidateParameters\<close> returns none, is decided by \<open>teststeps.ForEachTarget\<close> alone.
\<close>

lemma Run_bag_deserializes:
  assumes "fst (Unmarshal lib (GetOne_JSON lib p ''bag'') (params ts)) = None"
  shows "Run lib helper tr ts ctx ch ev vars p resumeState =
           (fst (ValidateParameters lib ts ctx p),
            helper exec_Name ctx ch (tr (fst (ValidateParameters lib ts ctx p)) ev vars))"
    and "snd (ValidateParameters lib ts ctx p) = None"
  using assms
  by (cases "Unmarshal lib (GetOne_JSON lib p ''bag'') (params ts)";
      auto simp: ValidateParameters_def populateParams_def Run_def split: prod.splits)+

end
